theory Spec2Isabelle
  imports Complex_Main
begin

section \<open>The CRM schema: data model\<close>

text \<open>
  The mutations and the report query of \<^verbatim>\<open>crm/schema.py\<close> over a relational store.
  A table is the list of its rows in insertion order. Primary keys are integers; decimal
  amounts are rationals, which add exactly as \<^verbatim>\<open>Decimal\<close> does; a timestamp is an
  integer.
\<close>

record Customer =
  customer_pk :: "int option"
  customer_name :: string
  email :: string
  phone :: "string option"
  created_at :: "int option"

record Product =
  product_id :: int
  product_name :: string
  price :: rat
  stock :: int

record Order =
  order_pk :: "int option"
  order_customer :: "int option"
  total_amount :: rat
  order_date :: "int option"

text \<open>
  A \<^verbatim>\<open>Customer\<close> or \<^verbatim>\<open>Order\<close> object is built before it has a key, so its key is
  \<open>None\<close> until the first \<^verbatim>\<open>save()\<close>. Products are only ever read from the store
  by the operations below and carry their key. \<open>order_products\<close> is the
  many-to-many table behind \<^verbatim>\<open>Order.products\<close>: pairs of an order key and a product
  key.
\<close>

record store =
  customers :: "Customer list"
  products :: "Product list"
  orders :: "Order list"
  order_products :: "(int \<times> int) list"

definition empty_store :: store where
  "empty_store = \<lparr>customers = [], products = [], orders = [], order_products = []\<rparr>"

text \<open>
  The exception classes that occur. The string an exception carries is its \<^verbatim>\<open>str(e)\<close>,
  the text the \<^verbatim>\<open>except\<close> clauses put into their messages.
\<close>

datatype exn =
  IntegrityError string
  | ValidationError string
  | DatabaseError string
  | TransactionManagementError string
  | DoesNotExist string
  | ValueError string
  | OverflowError string
  | Exception string

fun str_exn :: "exn \<Rightarrow> string" where
  "str_exn (IntegrityError m) = m"
| "str_exn (ValidationError m) = m"
| "str_exn (DatabaseError m) = m"
| "str_exn (TransactionManagementError m) = m"
| "str_exn (DoesNotExist m) = m"
| "str_exn (ValueError m) = m"
| "str_exn (OverflowError m) = m"
| "str_exn (Exception m) = m"

text \<open>\<^verbatim>\<open>str(n)\<close> for a length: the decimal digits of a natural number.\<close>

fun str_nat :: "nat \<Rightarrow> string" where
  "str_nat n =
     (if n < 10 then [''0123456789'' ! n]
      else str_nat (n div 10) @ [''0123456789'' ! (n mod 10)])"

declare str_nat.simps [simp del]

text \<open>The key the database gives a new row: one more than the largest key in use.\<close>

definition next_id :: "int option list \<Rightarrow> int" where
  "next_id ks = foldr (\<lambda>k m. case k of None \<Rightarrow> m | Some i \<Rightarrow> max i m) ks 0 + 1"

section \<open>\<^verbatim>\<open>UpdateLowStockProducts.mutate\<close>\<close>

text \<open>
  \<^verbatim>\<open>product.save()\<close> on an object read from the store: the row with the object's
  key is overwritten; were there none, the object would be inserted.
\<close>

definition Product_save :: "store \<Rightarrow> Product \<Rightarrow> store" where
  "Product_save s p =
     (if product_id p \<in> set (map product_id (products s))
      then s\<lparr>products := map (\<lambda>q. if product_id q = product_id p then p else q) (products s)\<rparr>
      else s\<lparr>products := products s @ [p]\<rparr>)"

text \<open>
  The loop over \<^verbatim>\<open>low_stock_products\<close>: each product's stock goes up by 10, the
  product is saved and appended to \<^verbatim>\<open>updated_products\<close>.
\<close>

fun restock_loop :: "store \<Rightarrow> Product list \<Rightarrow> Product list \<Rightarrow> store \<times> Product list" where
  "restock_loop s [] updated_products = (s, updated_products)"
| "restock_loop s (product # rest) updated_products =
     (let product' = product\<lparr>stock := stock product + 10\<rparr>
      in restock_loop (Product_save s product') rest (updated_products @ [product']))"

text \<open>
  The mutation: the query set \<^verbatim>\<open>filter(stock__lt=10)\<close> is read once, when the loop
  starts; the loop raises nothing, so the \<^verbatim>\<open>atomic\<close> block around it commits what it
  wrote. The result is the new store, the updated products and the message.
\<close>

definition UpdateLowStockProducts_mutate :: "store \<Rightarrow> store \<times> Product list \<times> string" where
  "UpdateLowStockProducts_mutate s =
     (let low_stock_products = filter (\<lambda>p. stock p < 10) (products s);
          (s', updated_products) = restock_loop s low_stock_products []
      in (s', updated_products,
          ''Updated '' @ str_nat (length updated_products) @ '' low stock products''))"

section \<open>Customers: \<^verbatim>\<open>CreateCustomer.mutate\<close> and \<^verbatim>\<open>BulkCreateCustomers.mutate\<close>\<close>

record CustomerInput =
  input_name :: string
  input_email :: string
  input_phone :: "string option"

text \<open>\<^verbatim>\<open>Customer(name=..., email=..., phone=...)\<close>: an object that is not in the store yet.\<close>

definition new_Customer :: "CustomerInput \<Rightarrow> Customer" where
  "new_Customer item =
     \<lparr>customer_pk = None, customer_name = input_name item, email = input_email item,
      phone = input_phone item, created_at = None\<rparr>"

text \<open>
  Modelled from the spec: \<^verbatim>\<open>Customer.clean\<close> of \<^verbatim>\<open>crm/models.py\<close>, which is not among
  the sources. The spec: "validates fields", "fails with ValidationError if fields are
  malformed". Which fields count as malformed is not said, so the check is the parameter
  \<open>field_errors\<close>: \<open>None\<close> for a well-formed customer, and for a malformed one the
  \<^verbatim>\<open>str(e)\<close> of the \<^verbatim>\<open>ValidationError\<close> raised (Django writes it as the list of the
  messages, \<^verbatim>\<open>['...']\<close>).
\<close>

definition Customer_clean :: "(Customer \<Rightarrow> string option) \<Rightarrow> Customer \<Rightarrow> exn + unit" where
  "Customer_clean field_errors c =
     (case field_errors c of None \<Rightarrow> Inr () | Some m \<Rightarrow> Inl (ValidationError m))"

text \<open>
  Modelled from the spec: \<^verbatim>\<open>Customer.save\<close> for a new customer (\<^verbatim>\<open>crm/models.py\<close> is
  not among the sources). The spec: "email (unique)", "email uniqueness enforced at the
  store level", "created_at (set on creation)". The store refuses an email that a row
  already has, with an \<^verbatim>\<open>IntegrityError\<close>, and changes nothing; otherwise the row is
  inserted under a fresh key.
\<close>

definition Customer_save :: "store \<Rightarrow> int \<Rightarrow> Customer \<Rightarrow> exn + (store \<times> Customer)" where
  "Customer_save s now c =
     (if email c \<in> set (map email (customers s))
      then Inl (IntegrityError ''UNIQUE constraint failed: crm_customer.email'')
      else
        (let c' = c\<lparr>customer_pk := Some (next_id (map customer_pk (customers s))),
                    created_at := Some now\<rparr>
         in Inr (s\<lparr>customers := customers s @ [c']\<rparr>, c')))"




text \<open>
  The two \<^verbatim>\<open>except\<close> clauses inside the loop of \<^verbatim>\<open>BulkCreateCustomers.mutate\<close>; both
  format \<^verbatim>\<open>str(e)\<close>, the string the exception carries.
\<close>

fun BulkCreateCustomers_except :: "CustomerInput \<Rightarrow> exn \<Rightarrow> string" where
  "BulkCreateCustomers_except item (IntegrityError m) =
     ''Failed to create customer '' @ input_name item @ '': '' @ m"
| "BulkCreateCustomers_except item (ValidationError m) =
     ''Failed to create customer '' @ input_name item @ '': '' @ m"
| "BulkCreateCustomers_except item e =
     ''Unexpected error for '' @ input_name item @ '': '' @ str_exn e"

text \<open>
  The loop runs inside \<^verbatim>\<open>with transaction.atomic()\<close>. Inside such a block Django keeps
  the flag \<^verbatim>\<open>needs_rollback\<close> on the connection: \<^verbatim>\<open>Model.save()\<close> sets it when the
  database refuses its statement; while it is set, a statement raises
  \<^verbatim>\<open>TransactionManagementError\<close> instead of running; and a block that ends with the flag
  set rolls back instead of committing, also when no exception leaves it. The loop
  catches the exceptions of \<^verbatim>\<open>save()\<close> inside the block, so the flag is part of the
  loop's state.
\<close>

definition save_in_atomic :: "bool \<Rightarrow> store \<Rightarrow> int \<Rightarrow> Customer \<Rightarrow> bool \<times> (exn + (store \<times> Customer))" where
  "save_in_atomic needs_rollback s now c =
     (if needs_rollback
      then (True, Inl (TransactionManagementError
             ''An error occurred in the current transaction. You can't execute queries until the end of the 'atomic' block.''))
      else
        (case Customer_save s now c of
           Inl e \<Rightarrow> (True, Inl e)
         | Inr r \<Rightarrow> (False, Inr r)))"

fun bulk_loop ::
  "(Customer \<Rightarrow> string option) \<Rightarrow> store \<Rightarrow> bool \<Rightarrow> int \<Rightarrow> CustomerInput list \<Rightarrow> Customer list \<Rightarrow> string list
     \<Rightarrow> store \<times> bool \<times> Customer list \<times> string list" where
  "bulk_loop field_errors s needs_rollback now [] customers' errors =
     (s, needs_rollback, customers', errors)"
| "bulk_loop field_errors s needs_rollback now (item # rest) customers' errors =
     (let customer = new_Customer item
      in case Customer_clean field_errors customer of
           Inl e \<Rightarrow>
             bulk_loop field_errors s needs_rollback now rest customers'
               (errors @ [BulkCreateCustomers_except item e])
         | Inr _ \<Rightarrow>
             (case save_in_atomic needs_rollback s now customer of
                (needs_rollback', Inl e) \<Rightarrow>
                  bulk_loop field_errors s needs_rollback' now rest customers'
                    (errors @ [BulkCreateCustomers_except item e])
              | (needs_rollback', Inr (s', customer')) \<Rightarrow>
                  bulk_loop field_errors s' needs_rollback' now rest (customers' @ [customer']) errors))"

text \<open>
  No exception leaves the block. Its writes are kept unless the flag is set when it
  ends; the lists the loop built are returned either way.
\<close>

definition BulkCreateCustomers_mutate ::
  "(Customer \<Rightarrow> string option) \<Rightarrow> store \<Rightarrow> int \<Rightarrow> CustomerInput list \<Rightarrow> store \<times> Customer list \<times> string list" where
  "BulkCreateCustomers_mutate field_errors s now input =
     (case bulk_loop field_errors s False now input [] [] of
        (s', needs_rollback, customers', errors) \<Rightarrow>
          ((if needs_rollback then s else s'), customers', errors))"

section \<open>\<^verbatim>\<open>CreateOrder.mutate\<close>\<close>

text \<open>
  A \<^verbatim>\<open>graphene.ID\<close> reaches \<^verbatim>\<open>mutate\<close> as a string, and the ORM converts it with
  \<^verbatim>\<open>int\<close> when it builds a query. \<open>Number k\<close> is an ID that reads as the integer \<open>k\<close>,
  \<open>Text t\<close> an ID that \<^verbatim>\<open>int\<close> refuses, such as \<^verbatim>\<open>abc\<close>.
\<close>

datatype ID = Number int | Text string

record OrderInput =
  customer_id :: ID
  product_ids :: "ID list"
  input_order_date :: "int option"

text \<open>
  The conversion of an ID for a lookup on the key: a text raises \<^verbatim>\<open>ValueError\<close>, whose
  message names the text between single quotes:
  \<^verbatim>\<open>Field 'id' expected a number but got 'abc'.\<close> for the text \<^verbatim>\<open>abc\<close>.
\<close>

definition to_python :: "ID \<Rightarrow> exn + int" where
  "to_python v =
     (case v of
        Number k \<Rightarrow> Inr k
      | Text t \<Rightarrow>
          Inl (ValueError (''Field 'id' expected a number but got '' @ [CHR 0x27] @ t @ [CHR 0x27] @ ''.'')))"

fun to_keys :: "ID list \<Rightarrow> exn + int list" where
  "to_keys [] = Inr []"
| "to_keys (v # vs) =
     (case to_python v of
        Inl e \<Rightarrow> Inl e
      | Inr k \<Rightarrow> (case to_keys vs of Inl e \<Rightarrow> Inl e | Inr ks \<Rightarrow> Inr (k # ks)))"

text \<open>
  \<^verbatim>\<open>Customer.objects.get(id=...)\<close>: the customer with the key, \<^verbatim>\<open>Customer.DoesNotExist\<close>
  when no row has it, and the \<^verbatim>\<open>ValueError\<close> of the conversion for a text.
\<close>

definition Customer_objects_get :: "store \<Rightarrow> ID \<Rightarrow> exn + Customer" where
  "Customer_objects_get s v =
     (case to_python v of
        Inl e \<Rightarrow> Inl e
      | Inr k \<Rightarrow>
          (case find (\<lambda>c. customer_pk c = Some k) (customers s) of
             None \<Rightarrow> Inl (DoesNotExist ''Customer matching query does not exist.'')
           | Some c \<Rightarrow> Inr c))"

text \<open>The rows an \<^verbatim>\<open>IN\<close> query over the keys \<open>ks\<close> returns: each matching row once.\<close>

definition id_in_rows :: "store \<Rightarrow> int list \<Rightarrow> Product list" where
  "id_in_rows s ks = filter (\<lambda>p. product_id p \<in> set ks) (products s)"

text \<open>The integers the database (SQLite) takes as a parameter: 64 bits, signed.\<close>

definition sqlite_integer :: "int \<Rightarrow> bool" where
  "sqlite_integer k = (- (2 ^ 63) \<le> k \<and> k < 2 ^ 63)"

text \<open>
  \<^verbatim>\<open>Product.objects.filter(id__in=...)\<close> followed by \<^verbatim>\<open>len(products)\<close>, which runs the
  query. Building the query converts every ID and raises \<^verbatim>\<open>ValueError\<close> for a text;
  running it raises \<^verbatim>\<open>OverflowError\<close> when a number does not fit the database's
  integers; otherwise the rows whose key is among the given ones come back.
\<close>

definition Product_objects_filter_id_in :: "store \<Rightarrow> ID list \<Rightarrow> exn + Product list" where
  "Product_objects_filter_id_in s vs =
     (case to_keys vs of
        Inl e \<Rightarrow> Inl e
      | Inr ks \<Rightarrow>
          if list_all sqlite_integer ks then Inr (id_in_rows s ks)
          else Inl (OverflowError ''Python int too large to convert to SQLite INTEGER''))"

text \<open>\<^verbatim>\<open>order.products.all()\<close>: the products paired with the order's key.\<close>

definition Order_products_all :: "store \<Rightarrow> int \<Rightarrow> Product list" where
  "Order_products_all s k = filter (\<lambda>p. (k, product_id p) \<in> set (order_products s)) (products s)"

text \<open>
  A write may be refused by the database for reasons outside the program (the source
  catches \<^verbatim>\<open>Exception\<close> around its block for that). \<open>db_fault\<close> gives, for the
  \<open>n\<close>-th write of the block, the message of the error raised, or \<open>None\<close> when the
  write goes through; a write takes its entry as the argument \<open>fault\<close>.
\<close>

text \<open>
  Modelled from the spec: \<^verbatim>\<open>Order.save\<close> of \<^verbatim>\<open>crm/models.py\<close>, which is not among the
  sources. The spec: "total_amount (derived, recomputed from the sum of associated
  product prices whenever the product set changes and the record is saved)",
  "order_date (defaults to creation time, overridable at creation)", and the first save
  "persisting the order row" before any product is attached. A new order gets a fresh
  key and, having no product yet, the total 0; a saved order gets the sum of the prices
  of its products and its row is overwritten.
\<close>

definition Order_save :: "string option \<Rightarrow> store \<Rightarrow> int \<Rightarrow> Order \<Rightarrow> exn + (store \<times> Order)" where
  "Order_save fault s now order =
     (case fault of
        Some m \<Rightarrow> Inl (DatabaseError m)
      | None \<Rightarrow>
          (case order_pk order of
             None \<Rightarrow>
               (let order' = order\<lparr>order_pk := Some (next_id (map order_pk (orders s))),
                                  total_amount := 0,
                                  order_date := (case order_date order of None \<Rightarrow> Some now | Some d \<Rightarrow> Some d)\<rparr>
                in Inr (s\<lparr>orders := orders s @ [order']\<rparr>, order'))
           | Some k \<Rightarrow>
               (let order' = order\<lparr>total_amount := sum_list (map price (Order_products_all s k))\<rparr>
                in Inr (s\<lparr>orders := map (\<lambda>r. if order_pk r = Some k then order' else r) (orders s)\<rparr>, order'))))"

text \<open>
  \<^verbatim>\<open>order.products.set(products)\<close>: afterwards the order is paired with exactly the
  given products. An order without a key cannot have products.
\<close>

definition Order_products_set :: "string option \<Rightarrow> store \<Rightarrow> Order \<Rightarrow> Product list \<Rightarrow> exn + store" where
  "Order_products_set fault s order ps =
     (case fault of
        Some m \<Rightarrow> Inl (DatabaseError m)
      | None \<Rightarrow>
          (case order_pk order of
             None \<Rightarrow> Inl (Exception ''a value for the key is needed before this many-to-many relationship can be used'')
           | Some k \<Rightarrow>
               Inr (s\<lparr>order_products :=
                        filter (\<lambda>r. fst r \<noteq> k) (order_products s) @ map (\<lambda>p. (k, product_id p)) ps\<rparr>)))"

text \<open>
  \<^verbatim>\<open>with transaction.atomic()\<close>: when the body raises, the store is the one the block
  started from and the exception goes on; otherwise the body's writes are kept.
\<close>

definition atomic :: "store \<Rightarrow> (store \<Rightarrow> exn + (store \<times> 'a)) \<Rightarrow> store \<times> (exn + 'a)" where
  "atomic s body = (case body s of Inl e \<Rightarrow> (s, Inl e) | Inr (s', r) \<Rightarrow> (s', Inr r))"

text \<open>The body of the block: save, attach the products, save again.\<close>

definition CreateOrder_block ::
  "(nat \<Rightarrow> string option) \<Rightarrow> int \<Rightarrow> Customer \<Rightarrow> OrderInput \<Rightarrow> Product list \<Rightarrow> store \<Rightarrow> exn + (store \<times> Order)" where
  "CreateOrder_block db_fault now customer input ps s =
     (let order = \<lparr>order_pk = None, order_customer = customer_pk customer, total_amount = 0,
                   order_date = None\<rparr>;
          order = (case input_order_date input of
                     Some d \<Rightarrow> order\<lparr>order_date := Some d\<rparr>
                   | None \<Rightarrow> order)
      in case Order_save (db_fault 0) s now order of
           Inl e \<Rightarrow> Inl e
         | Inr (s1, order1) \<Rightarrow>
             (case Order_products_set (db_fault 1) s1 order1 ps of
                Inl e \<Rightarrow> Inl e
              | Inr s2 \<Rightarrow> Order_save (db_fault 2) s2 now order1))"

text \<open>
  The \<^verbatim>\<open>except\<close> clause around the lookup of the customer: only
  \<^verbatim>\<open>Customer.DoesNotExist\<close> is caught; any other exception leaves \<^verbatim>\<open>mutate\<close> as it is.
\<close>

fun CreateOrder_except_lookup :: "exn \<Rightarrow> exn" where
  "CreateOrder_except_lookup (DoesNotExist m) = Exception ''Invalid customer ID''"
| "CreateOrder_except_lookup e = e"

text \<open>
  The product query and its count are outside every \<^verbatim>\<open>try\<close>: an exception of theirs
  leaves \<^verbatim>\<open>mutate\<close> as it is.
\<close>

definition CreateOrder_mutate ::
  "(nat \<Rightarrow> string option) \<Rightarrow> store \<Rightarrow> int \<Rightarrow> OrderInput \<Rightarrow> store \<times> (exn + Order)" where
  "CreateOrder_mutate db_fault s now input =
     (case Customer_objects_get s (customer_id input) of
        Inl e \<Rightarrow> (s, Inl (CreateOrder_except_lookup e))
      | Inr customer \<Rightarrow>
          if product_ids input = [] then (s, Inl (Exception ''At least one product is required''))
          else
            (case Product_objects_filter_id_in s (product_ids input) of
               Inl e \<Rightarrow> (s, Inl e)
             | Inr ps \<Rightarrow>
                 if length ps \<noteq> length (product_ids input)
                 then (s, Inl (Exception ''One or more product IDs are invalid''))
                 else
                   (case atomic s (CreateOrder_block db_fault now customer input ps) of
                      (s', Inl e) \<Rightarrow> (s', Inl (Exception (''Error creating order: '' @ str_exn e)))
                    | (s', Inr order) \<Rightarrow> (s', Inr order))))"

section \<open>\<^verbatim>\<open>Query.resolve_crm_report\<close>\<close>

text \<open>The fields of a graphene object type may be null: \<open>None\<close>.\<close>

record CRMReportType =
  total_customers :: "int option"
  total_orders :: "int option"
  total_revenue :: "rat option"

text \<open>
  \<^verbatim>\<open>aggregate(Sum('total_amount'))['total_amount__sum']\<close>: the sum over the rows, and
  \<open>None\<close> when there is no row.
\<close>

definition Order_aggregate_Sum_total_amount :: "store \<Rightarrow> rat option" where
  "Order_aggregate_Sum_total_amount s =
     (if orders s = [] then None else Some (sum_list (map total_amount (orders s))))"

text \<open>\<^verbatim>\<open>x or 0\<close>: 0 when \<open>x\<close> is \<^verbatim>\<open>None\<close> or zero, else \<open>x\<close>.\<close>

definition or_0 :: "rat option \<Rightarrow> rat" where
  "or_0 x = (case x of None \<Rightarrow> 0 | Some v \<Rightarrow> if v = 0 then 0 else v)"

definition resolve_crm_report :: "store \<Rightarrow> CRMReportType" where
  "resolve_crm_report s =
     \<lparr>total_customers = Some (int (length (customers s))),
      total_orders = Some (int (length (orders s))),
      total_revenue = Some (or_0 (Order_aggregate_Sum_total_amount s))\<rparr>"

section \<open>A small store for examples\<close>

text \<open>
  One customer and three products: a pen at 10 with 3 in stock, ink at 15 with 15 in
  stock, a pad at 4 with 9 in stock. No order yet.
\<close>

definition ann :: Customer where
  "ann = \<lparr>customer_pk = Some 1, customer_name = ''Ann'', email = ''ann@example.com'',
          phone = None, created_at = Some 0\<rparr>"

definition pen :: Product where
  "pen = \<lparr>product_id = 1, product_name = ''pen'', price = 10, stock = 3\<rparr>"

definition ink :: Product where
  "ink = \<lparr>product_id = 2, product_name = ''ink'', price = 15, stock = 15\<rparr>"

definition pad :: Product where
  "pad = \<lparr>product_id = 3, product_name = ''pad'', price = 4, stock = 9\<rparr>"

definition shop :: store where
  "shop = \<lparr>customers = [ann], products = [pen, ink, pad], orders = [], order_products = []\<rparr>"

section \<open>The low-stock update\<close>

text \<open>
  What the loop leaves in the products table, for any list of products it is given
  whose keys are distinct and present in the table: each of those rows holds the
  product with 10 more in stock; the other rows are as before.
\<close>

lemma restock_loop_products:
  "distinct (map product_id ps) \<Longrightarrow> set (map product_id ps) \<subseteq> set (map product_id (products s)) \<Longrightarrow>
   products (fst (restock_loop s ps acc)) =
     map (\<lambda>q. case find (\<lambda>p. product_id p = product_id q) ps of None \<Rightarrow> q
                | Some p \<Rightarrow> p\<lparr>stock := stock p + 10\<rparr>) (products s)"
proof (induction ps arbitrary: s acc)
  case Nil
  then show ?case by simp
next
  case (Cons p ps)
  let ?p' = "p\<lparr>stock := stock p + 10\<rparr>"
  let ?s1 = "Product_save s ?p'"
  have mem: "product_id p \<in> set (map product_id (products s))" using Cons.prems(2) by simp
  have s1: "products ?s1 = map (\<lambda>q. if product_id q = product_id p then ?p' else q) (products s)"
    using mem by (simp add: Product_save_def)
  have ids: "map product_id (products ?s1) = map product_id (products s)"
    unfolding s1 by (induction "products s") auto
  have d: "distinct (map product_id ps)" using Cons.prems(1) by simp
  have sub: "set (map product_id ps) \<subseteq> set (map product_id (products ?s1))"
    using Cons.prems(2) unfolding ids by simp
  have nf: "find (\<lambda>r. product_id r = product_id p) ps = None"
    using Cons.prems(1) by (auto simp: find_None_iff image_iff)
  show ?case
    using Cons.IH[OF d sub, of "acc @ [?p']"] nf
    by (simp add: Let_def s1 o_def cong: map_cong)
qed

lemma restock_loop_updated:
  "snd (restock_loop s ps acc) = acc @ map (\<lambda>p. p\<lparr>stock := stock p + 10\<rparr>) ps"
  by (induction ps arbitrary: s acc) (simp_all add: Let_def)

lemma find_filter_self:
  "distinct (map product_id xs) \<Longrightarrow> q \<in> set xs \<Longrightarrow>
   find (\<lambda>p. product_id p = product_id q) (filter P xs) = (if P q then Some q else None)"
  by (induction xs) (auto simp: find_None_iff rev_image_eqI)

lemma restock_loop_frame:
  "\<exists>ps'. fst (restock_loop s ps acc) = s\<lparr>products := ps'\<rparr>"
proof (induction ps arbitrary: s acc)
  case Nil
  have "s = s\<lparr>products := products s\<rparr>" by simp
  then show ?case by (metis restock_loop.simps(1) fst_conv)
next
  case (Cons p ps)
  obtain x where x: "Product_save s (p\<lparr>stock := stock p + 10\<rparr>) = s\<lparr>products := x\<rparr>"
    by (cases "product_id p \<in> set (map product_id (products s))") (simp_all add: Product_save_def)
  from Cons.IH[of "s\<lparr>products := x\<rparr>" "acc @ [p\<lparr>stock := stock p + 10\<rparr>]"]
  show ?case by (auto simp: Let_def x)
qed

lemma restock_loop_store:
  "fst (restock_loop s ps acc) = s\<lparr>products := products (fst (restock_loop s ps acc))\<rparr>"
proof -
  obtain ps' where "fst (restock_loop s ps acc) = s\<lparr>products := ps'\<rparr>"
    using restock_loop_frame by blast
  then show ?thesis by simp
qed

lemma restock_all_low:
  assumes "distinct (map product_id (products s))"
  shows "products (fst (restock_loop s (filter (\<lambda>p. stock p < 10) (products s)) [])) =
         map (\<lambda>p. if stock p < 10 then p\<lparr>stock := stock p + 10\<rparr> else p) (products s)"
proof -
  let ?low = "filter (\<lambda>p. stock p < 10) (products s)"
  have d: "distinct (map product_id ?low)"
    using assms by (simp add: distinct_map_filter)
  have sub: "set (map product_id ?low) \<subseteq> set (map product_id (products s))"
    by auto
  show ?thesis
    unfolding restock_loop_products[OF d sub]
    by (rule map_cong) (simp_all add: find_filter_self[OF assms])
qed

lemma UpdateLowStockProducts_mutate_eq:
  assumes "distinct (map product_id (products s))"
  shows "UpdateLowStockProducts_mutate s =
     (s\<lparr>products := map (\<lambda>p. if stock p < 10 then p\<lparr>stock := stock p + 10\<rparr> else p) (products s)\<rparr>,
      map (\<lambda>p. p\<lparr>stock := stock p + 10\<rparr>) (filter (\<lambda>p. stock p < 10) (products s)),
      ''Updated '' @ str_nat (length (filter (\<lambda>p. stock p < 10) (products s))) @ '' low stock products'')"
proof -
  let ?low = "filter (\<lambda>p. stock p < 10) (products s)"
  obtain s' u where r: "restock_loop s ?low [] = (s', u)" by (cases "restock_loop s ?low []")
  have u: "u = map (\<lambda>p. p\<lparr>stock := stock p + 10\<rparr>) ?low"
    using restock_loop_updated[of s ?low "[]"] r by simp
  have "s' = s\<lparr>products := products s'\<rparr>"
    using restock_loop_store[of s ?low "[]"] r by simp
  moreover have "products s' = map (\<lambda>p. if stock p < 10 then p\<lparr>stock := stock p + 10\<rparr> else p) (products s)"
    using restock_all_low[OF assms] r by simp
  ultimately have s': "s' = s\<lparr>products := map (\<lambda>p. if stock p < 10 then p\<lparr>stock := stock p + 10\<rparr> else p) (products s)\<rparr>"
    by simp
  show ?thesis
    unfolding UpdateLowStockProducts_mutate_def Let_def r using u s' by simp
qed

text \<open>
  Claim C2. With distinct product keys, \<^verbatim>\<open>update_low_stock_products()\<close> adds exactly 10 to
  the stock of exactly the products whose stock is below 10 and leaves every other
  product, and every other table, as it was; it returns the products it updated and the
  message \<^verbatim>\<open>Updated n low stock products\<close> with \<open>n\<close> their number. On stocks 3, 15, 9
  the stocks become 13, 15, 19 and the count is 2.
\<close>

theorem update_low_stock_products_exact:
  assumes "distinct (map product_id (products s))"
    and "UpdateLowStockProducts_mutate s = (s', updated, message)"
  shows "products s' = map (\<lambda>p. if stock p < 10 then p\<lparr>stock := stock p + 10\<rparr> else p) (products s)
    \<and> customers s' = customers s \<and> orders s' = orders s \<and> order_products s' = order_products s
    \<and> updated = map (\<lambda>p. p\<lparr>stock := stock p + 10\<rparr>) (filter (\<lambda>p. stock p < 10) (products s))
    \<and> message = ''Updated '' @ str_nat (length updated) @ '' low stock products''
    \<and> (map stock (products s) = [3, 15, 9] \<longrightarrow>
         map stock (products s') = [13, 15, 19] \<and> length updated = 2
         \<and> message = ''Updated 2 low stock products'')"
proof -
  note eq = assms(2)[unfolded UpdateLowStockProducts_mutate_eq[OF assms(1)]]
  have p: "products s' = map (\<lambda>p. if stock p < 10 then p\<lparr>stock := stock p + 10\<rparr> else p) (products s)"
    and rest: "customers s' = customers s" "orders s' = orders s" "order_products s' = order_products s"
    and u: "updated = map (\<lambda>p. p\<lparr>stock := stock p + 10\<rparr>) (filter (\<lambda>p. stock p < 10) (products s))"
    and m: "message = ''Updated '' @ str_nat (length updated) @ '' low stock products''"
    using eq by auto
  have ex: "map stock (products s') = [13, 15, 19] \<and> length updated = 2
         \<and> message = ''Updated 2 low stock products''" if h: "map stock (products s) = [3, 15, 9]"
  proof -
    obtain a b c where abc: "products s = [a, b, c]" "stock a = 3" "stock b = 15" "stock c = 9"
      using h by (auto simp: map_eq_Cons_conv)
    show ?thesis unfolding m unfolding u p abc by (simp add: abc str_nat.simps)
  qed
  show ?thesis using p rest u m ex by blast
qed

theorem update_low_stock_products_exact_witness:
  "distinct (map product_id (products shop))
   \<and> map stock (products shop) = [3, 15, 9]
   \<and> map stock (products (fst (UpdateLowStockProducts_mutate shop))) = [13, 15, 19]
   \<and> length (fst (snd (UpdateLowStockProducts_mutate shop))) = 2
   \<and> snd (snd (UpdateLowStockProducts_mutate shop)) = ''Updated 2 low stock products''"
proof -
  have d: "distinct (map product_id (products shop))"
    by (simp add: shop_def pen_def ink_def pad_def)
  have st: "map stock (products shop) = [3, 15, 9]"
    by (simp add: shop_def pen_def ink_def pad_def)
  obtain s' updated message where r: "UpdateLowStockProducts_mutate shop = (s', updated, message)"
    by (cases "UpdateLowStockProducts_mutate shop")
  from update_low_stock_products_exact[OF d r] st
  have "map stock (products s') = [13, 15, 19] \<and> length updated = 2
        \<and> message = ''Updated 2 low stock products''"
    by blast
  with d st show ?thesis
    by (simp add: r)
qed

text \<open>
  Claim C10. With distinct product keys and no negative stock, after one run every stock
  is at least 10, and a second run leaves the store as the first run left it, updates no
  product and reports the count 0.
\<close>

theorem update_low_stock_products_twice:
  assumes "distinct (map product_id (products s))"
    and "\<forall>p \<in> set (products s). 0 \<le> stock p"
    and "UpdateLowStockProducts_mutate s = (s1, updated1, message1)"
  shows "(\<forall>p \<in> set (products s1). 10 \<le> stock p)
    \<and> UpdateLowStockProducts_mutate s1 = (s1, [], ''Updated 0 low stock products'')"
proof -
  note eq = assms(3)[unfolded UpdateLowStockProducts_mutate_eq[OF assms(1)]]
  have p: "products s1 = map (\<lambda>p. if stock p < 10 then p\<lparr>stock := stock p + 10\<rparr> else p) (products s)"
    using eq by auto
  have ge: "\<forall>p \<in> set (products s1). 10 \<le> stock p"
    unfolding p using assms(2) by auto
  then have none: "filter (\<lambda>p. stock p < 10) (products s1) = []"
    by (auto simp: filter_empty_conv)
  have "UpdateLowStockProducts_mutate s1 = (s1, [], ''Updated 0 low stock products'')"
    by (simp add: UpdateLowStockProducts_mutate_def none str_nat.simps)
  with ge show ?thesis by simp
qed

theorem update_low_stock_products_twice_witness:
  "distinct (map product_id (products shop))
   \<and> list_all (\<lambda>p. 0 \<le> stock p) (products shop)
   \<and> UpdateLowStockProducts_mutate (fst (UpdateLowStockProducts_mutate shop)) =
       (fst (UpdateLowStockProducts_mutate shop), [], ''Updated 0 low stock products'')"
proof -
  have d: "distinct (map product_id (products shop))"
    by (simp add: shop_def pen_def ink_def pad_def)
  have nn: "\<forall>p \<in> set (products shop). 0 \<le> stock p"
    by (simp add: shop_def pen_def ink_def pad_def)
  obtain s1 updated1 message1 where r: "UpdateLowStockProducts_mutate shop = (s1, updated1, message1)"
    by (cases "UpdateLowStockProducts_mutate shop")
  from update_low_stock_products_twice[OF d nn r]
  have "UpdateLowStockProducts_mutate s1 = (s1, [], ''Updated 0 low stock products'')"
    by blast
  with d nn show ?thesis
    by (simp add: r list_all_iff)
qed

section \<open>Creating an order\<close>

text \<open>
  A fresh key is above every key in use, so no row has it.
\<close>

lemma next_id_bound: "Some k \<in> set ks \<Longrightarrow> k < next_id ks"
proof -
  have "Some k \<in> set ks \<Longrightarrow>
        k \<le> foldr (\<lambda>k m. case k of None \<Rightarrow> m | Some i \<Rightarrow> max i m) ks 0"
    by (induction ks) (auto split: option.splits)
  then show "Some k \<in> set ks \<Longrightarrow> k < next_id ks"
    by (simp add: next_id_def)
qed

lemma next_id_fresh: "Some (next_id ks) \<notin> set ks"
  using next_id_bound[of "next_id ks" ks] by auto

lemma Customer_objects_get_Some:
  "Some k \<in> set (map customer_pk (customers s)) \<Longrightarrow> \<exists>c. Customer_objects_get s (Number k) = Inr c"
  by (cases "find (\<lambda>c. customer_pk c = Some k) (customers s)")
    (force simp: Customer_objects_get_def to_python_def find_None_iff image_iff)+

lemma Customer_objects_get_None:
  assumes "Some k \<notin> set (map customer_pk (customers s))"
  shows "\<exists>m. Customer_objects_get s (Number k) = Inl (DoesNotExist m)"
proof -
  have "find (\<lambda>c. customer_pk c = Some k) (customers s) = None"
    using assms by (force simp: find_None_iff image_iff)
  then show ?thesis by (simp add: Customer_objects_get_def to_python_def)
qed

lemma to_keys_numbers: "to_keys (map Number ks) = Inr ks"
  by (induction ks) (simp_all add: to_python_def)

lemma filter_id_in_numbers:
  "list_all sqlite_integer ks \<Longrightarrow>
   Product_objects_filter_id_in s (map Number ks) = Inr (id_in_rows s ks)"
  by (simp add: Product_objects_filter_id_in_def to_keys_numbers)

lemma id_in_rows_length:
  assumes "distinct (map product_id (products s))"
  shows "length (id_in_rows s ks) = card (set ks \<inter> set (map product_id (products s)))"
proof -
  have "map product_id (id_in_rows s ks) =
        filter (\<lambda>i. i \<in> set ks) (map product_id (products s))"
    by (simp add: id_in_rows_def filter_map o_def)
  moreover have "distinct (filter (\<lambda>i. i \<in> set ks) (map product_id (products s)))"
    using assms by simp
  ultimately have "length (id_in_rows s ks) =
        card (set (filter (\<lambda>i. i \<in> set ks) (map product_id (products s))))"
    by (metis distinct_card length_map)
  also have "set (filter (\<lambda>i. i \<in> set ks) (map product_id (products s))) =
        set ks \<inter> set (map product_id (products s))"
    by auto
  finally show ?thesis .
qed

lemma id_in_rows_all:
  assumes "distinct (map product_id (products s))" "distinct ks"
    "set ks \<subseteq> set (map product_id (products s))"
  shows "length (id_in_rows s ks) = length ks"
proof -
  have "set ks \<inter> set (map product_id (products s)) = set ks" using assms(3) by auto
  then show ?thesis
    using id_in_rows_length[OF assms(1), of ks] distinct_card[OF assms(2)] by simp
qed

lemma id_in_rows_missing:
  assumes "distinct (map product_id (products s))" "i \<in> set ks"
    "i \<notin> set (map product_id (products s))"
  shows "length (id_in_rows s ks) < length ks"
proof -
  have "set ks \<inter> set (map product_id (products s)) \<subset> set ks" using assms(2,3) by auto
  then have "card (set ks \<inter> set (map product_id (products s))) < card (set ks)"
    by (simp add: psubset_card_mono)
  also have "\<dots> \<le> length ks" by (rule card_length)
  finally show ?thesis using id_in_rows_length[OF assms(1), of ks] by simp
qed

text \<open>
  The block when the database accepts its three writes.
\<close>

lemma CreateOrder_block_ok:
  assumes "db_fault 0 = None" "db_fault 1 = None" "db_fault 2 = None"
    and ps: "ps = id_in_rows s ks"
  shows "\<exists>s' order k. CreateOrder_block db_fault now customer input ps s = Inr (s', order)
      \<and> order_pk order = Some k
      \<and> orders s' = orders s @ [order]
      \<and> customers s' = customers s \<and> products s' = products s
      \<and> Order_products_all s' k = ps
      \<and> total_amount order = sum_list (map price ps)
      \<and> order_customer order = customer_pk customer"
proof -
  let ?k = "next_id (map order_pk (orders s))"
  let ?o1 = "\<lparr>order_pk = Some ?k, order_customer = customer_pk customer, total_amount = 0,
              order_date = (case input_order_date input of None \<Rightarrow> Some now | Some d \<Rightarrow> Some d)\<rparr>"
  let ?s1 = "s\<lparr>orders := orders s @ [?o1]\<rparr>"
  let ?s2 = "?s1\<lparr>order_products := filter (\<lambda>r. fst r \<noteq> ?k) (order_products s) @ map (\<lambda>p. (?k, product_id p)) ps\<rparr>"
  let ?o3 = "?o1\<lparr>total_amount := sum_list (map price (Order_products_all ?s2 ?k))\<rparr>"
  let ?s3 = "?s2\<lparr>orders := map (\<lambda>r. if order_pk r = Some ?k then ?o3 else r) (orders ?s2)\<rparr>"
  have all: "Order_products_all ?s2 ?k = ps"
    unfolding ps Order_products_all_def id_in_rows_def
    by (auto simp: image_iff intro!: filter_cong)
  have fresh: "\<forall>r \<in> set (orders s). order_pk r \<noteq> Some ?k"
    using next_id_fresh[of "map order_pk (orders s)"] by (force simp: image_iff)
  then have keep: "map (\<lambda>r. if order_pk r = Some ?k then ?o3 else r) (orders s) = orders s"
    by (simp add: map_idI)
  have blk: "CreateOrder_block db_fault now customer input ps s = Inr (?s3, ?o3)"
    using assms(1-3)
    by (simp add: CreateOrder_block_def Order_save_def Order_products_set_def Let_def
        split: option.splits)
  have "Order_products_all ?s3 ?k = Order_products_all ?s2 ?k"
    by (simp add: Order_products_all_def)
  with all keep blk show ?thesis by simp
qed

text \<open>
  Claim C1, as amended. For an existing customer and a non-empty list of distinct keys of
  existing products (product keys being distinct in the store, and the keys within the
  database's integers), and when the database accepts the three writes of the block,
  \<^verbatim>\<open>create_order\<close> succeeds: the order is the new row of the orders table, the products
  attached to it are the products the keys resolve to, and its \<open>total_amount\<close> is the
  sum of the prices of the attached products; with prices 10 and 15 the total is 25.
\<close>

theorem create_order_total:
  assumes "customer_id input = Number cid"
    and "Some cid \<in> set (map customer_pk (customers s))"
    and "product_ids input = map Number pids"
    and "pids \<noteq> []"
    and "distinct pids"
    and "set pids \<subseteq> set (map product_id (products s))"
    and "distinct (map product_id (products s))"
    and "list_all sqlite_integer pids"
    and "db_fault 0 = None" "db_fault 1 = None" "db_fault 2 = None"
  shows "\<exists>s' order k. CreateOrder_mutate db_fault s now input = (s', Inr order)
      \<and> order_pk order = Some k
      \<and> orders s' = orders s @ [order]
      \<and> Product_objects_filter_id_in s (product_ids input) = Inr (Order_products_all s' k)
      \<and> set (map product_id (Order_products_all s' k)) = set pids
      \<and> total_amount order = sum_list (map price (Order_products_all s' k))
      \<and> (map price (Order_products_all s' k) = [10, 15] \<longrightarrow> total_amount order = 25)"
proof -
  let ?ps = "id_in_rows s pids"
  obtain c where c: "Customer_objects_get s (customer_id input) = Inr c"
    using Customer_objects_get_Some[OF assms(2)] assms(1) by auto
  have q: "Product_objects_filter_id_in s (product_ids input) = Inr ?ps"
    using filter_id_in_numbers[OF assms(8)] assms(3) by simp
  have len: "length ?ps = length (product_ids input)"
    using id_in_rows_all[OF assms(7) assms(5) assms(6)] assms(3) by simp
  have ne: "product_ids input \<noteq> []" using assms(3,4) by simp
  obtain s' order k where blk: "CreateOrder_block db_fault now c input ?ps s = Inr (s', order)"
    and k: "order_pk order = Some k" and o: "orders s' = orders s @ [order]"
    and a: "Order_products_all s' k = ?ps" and t: "total_amount order = sum_list (map price ?ps)"
    using CreateOrder_block_ok[OF assms(9-11) refl, where s = s and ks = pids
        and now = now and customer = c and input = input] by blast
  have res: "CreateOrder_mutate db_fault s now input = (s', Inr order)"
    using c ne q len blk by (simp add: CreateOrder_mutate_def atomic_def)
  have ids: "set (map product_id ?ps) = set pids"
    using assms(6) by (auto simp: id_in_rows_def)
  have "map price (Order_products_all s' k) = [10, 15] \<longrightarrow> total_amount order = 25"
    by (simp add: t a)
  with res k o a t ids q show ?thesis by auto
qed

text \<open>
  In the example store, customer 1 orders the pen (10) and the ink (15): the total is 25.
\<close>

theorem create_order_total_witness:
  "Some 1 \<in> set (map customer_pk (customers shop))
   \<and> distinct (map product_id (products shop))
   \<and> list_all sqlite_integer [1, 2]
   \<and> map_sum id (map price) (Product_objects_filter_id_in shop [Number 1, Number 2]) = Inr [10, 15]
   \<and> (\<exists>s' order. CreateOrder_mutate (\<lambda>n. None) shop 0
           \<lparr>customer_id = Number 1, product_ids = [Number 1, Number 2], input_order_date = None\<rparr>
             = (s', Inr order)
         \<and> orders s' = [order] \<and> total_amount order = 25)"
proof -
  let ?input = "\<lparr>customer_id = Number 1, product_ids = [Number 1, Number 2], input_order_date = None\<rparr>"
  have i: "customer_id ?input = Number 1" "product_ids ?input = map Number [1, 2]" by simp_all
  have c: "Some 1 \<in> set (map customer_pk (customers shop))"
    by (simp add: shop_def ann_def)
  have d: "distinct (map product_id (products shop))"
    by (simp add: shop_def pen_def ink_def pad_def)
  have sub: "set [1, 2] \<subseteq> set (map product_id (products shop))"
    by (simp add: shop_def pen_def ink_def pad_def)
  have rg: "list_all sqlite_integer [1, 2]"
    by (simp add: sqlite_integer_def)
  have pr: "map_sum id (map price) (Product_objects_filter_id_in shop [Number 1, Number 2]) = Inr [10, 15]"
    by (simp add: Product_objects_filter_id_in_def to_python_def sqlite_integer_def id_in_rows_def
        shop_def pen_def ink_def pad_def)
  obtain s' order k where r: "CreateOrder_mutate (\<lambda>n. None) shop 0 ?input = (s', Inr order)"
    and o: "orders s' = orders shop @ [order]"
    and a: "Product_objects_filter_id_in shop (product_ids ?input) = Inr (Order_products_all s' k)"
    and t: "map price (Order_products_all s' k) = [10, 15] \<longrightarrow> total_amount order = 25"
    using create_order_total[where input = ?input and s = shop and db_fault = "\<lambda>n. None" and now = 0,
        OF i(1) c i(2) _ _ sub d rg] by auto
  have "total_amount order = 25" using t a pr by simp
  moreover have "orders s' = [order]" using o by (simp add: shop_def)
  ultimately show ?thesis using c d rg pr r by auto
qed

text \<open>
  Claim C1 as stated fails for a list that names an existing product twice: the query
  returns the product once, the counts differ and the order is refused.
\<close>

theorem create_order_repeated_product_counterexample:
  "Some 1 \<in> set (map customer_pk (customers shop))
   \<and> 1 \<in> set (map product_id (products shop))
   \<and> CreateOrder_mutate (\<lambda>n. None) shop 0
        \<lparr>customer_id = Number 1, product_ids = [Number 1, Number 1], input_order_date = None\<rparr>
      = (shop, Inl (Exception ''One or more product IDs are invalid''))"
  by (simp add: CreateOrder_mutate_def Customer_objects_get_def Product_objects_filter_id_in_def
      to_python_def sqlite_integer_def id_in_rows_def shop_def ann_def pen_def ink_def pad_def)

text \<open>
  The count guard on numbers: for an existing customer and a non-empty list of numbers
  within the database's integers, the order is refused with
  \<^verbatim>\<open>One or more product IDs are invalid\<close> exactly when the number of rows found differs
  from the length of the list, and so whenever a number is the key of no product.
\<close>

lemma create_order_count_guard:
  assumes "customer_id input = Number cid"
    and "Some cid \<in> set (map customer_pk (customers s))"
    and "product_ids input = map Number pids"
    and "pids \<noteq> []"
    and "list_all sqlite_integer pids"
  shows "(snd (CreateOrder_mutate db_fault s now input)
            = Inl (Exception ''One or more product IDs are invalid''))
         = (length (id_in_rows s pids) \<noteq> length pids)
     \<and> (distinct (map product_id (products s)) \<longrightarrow>
          (\<exists>i \<in> set pids. i \<notin> set (map product_id (products s))) \<longrightarrow>
          CreateOrder_mutate db_fault s now input
            = (s, Inl (Exception ''One or more product IDs are invalid'')))"
proof -
  let ?ps = "id_in_rows s pids"
  obtain c where c: "Customer_objects_get s (customer_id input) = Inr c"
    using Customer_objects_get_Some[OF assms(2)] assms(1) by auto
  have q: "Product_objects_filter_id_in s (product_ids input) = Inr ?ps"
    using filter_id_in_numbers[OF assms(5)] assms(3) by simp
  have ne: "product_ids input \<noteq> []" using assms(3,4) by simp
  have l: "length (product_ids input) = length pids" using assms(3) by simp
  have bad: "CreateOrder_mutate db_fault s now input
        = (s, Inl (Exception ''One or more product IDs are invalid''))"
    if "length ?ps \<noteq> length pids"
    using c ne q l that by (simp add: CreateOrder_mutate_def)
  have good: "snd (CreateOrder_mutate db_fault s now input)
        \<noteq> Inl (Exception ''One or more product IDs are invalid'')"
    if "length ?ps = length pids"
    using c ne q l that
    by (auto simp: CreateOrder_mutate_def split: prod.splits sum.splits)
  have miss: "length ?ps \<noteq> length pids"
    if "distinct (map product_id (products s))"
      and "\<exists>i \<in> set pids. i \<notin> set (map product_id (products s))"
    using that id_in_rows_missing[of s _ pids] by (metis less_irrefl)
  show ?thesis using bad good miss by (metis snd_conv)
qed

text \<open>
  Claim C4 fails on the code. An ID of \<^verbatim>\<open>product_ids\<close> that is no number, or a number
  outside the database's integers, resolves to no product, yet the order is not refused
  with \<^verbatim>\<open>One or more product IDs are invalid\<close>: the query raises \<^verbatim>\<open>ValueError\<close> or
  \<^verbatim>\<open>OverflowError\<close> before the counts are compared, and nothing catches it. In the
  example store, for customer 1: the IDs 1 and \<^verbatim>\<open>abc\<close>, and the IDs 1 and \<open>2 ^ 64\<close>.
\<close>

theorem create_order_unreadable_product_id:
  "CreateOrder_mutate (\<lambda>n. None) shop 0
     \<lparr>customer_id = Number 1, product_ids = [Number 1, Text ''abc''], input_order_date = None\<rparr>
   = (shop, Inl (ValueError ''Field 'id' expected a number but got 'abc'.''))
   \<and> CreateOrder_mutate (\<lambda>n. None) shop 0
     \<lparr>customer_id = Number 1, product_ids = [Number 1, Number (2 ^ 64)], input_order_date = None\<rparr>
   = (shop, Inl (OverflowError ''Python int too large to convert to SQLite INTEGER''))"
  by (simp add: CreateOrder_mutate_def Customer_objects_get_def Product_objects_filter_id_in_def
      to_python_def sqlite_integer_def shop_def ann_def)

text \<open>
  The lookup of the customer on numbers: when the number is the key of no customer,
  the order is refused with \<^verbatim>\<open>Invalid customer ID\<close> whatever \<^verbatim>\<open>product_ids\<close> is, and the
  store is as it was.
\<close>

lemma create_order_unknown_customer_number:
  assumes "customer_id input = Number cid"
    and "Some cid \<notin> set (map customer_pk (customers s))"
  shows "CreateOrder_mutate db_fault s now input = (s, Inl (Exception ''Invalid customer ID''))"
proof -
  obtain m where "Customer_objects_get s (customer_id input) = Inl (DoesNotExist m)"
    using Customer_objects_get_None[OF assms(2)] assms(1) by auto
  then show ?thesis by (simp add: CreateOrder_mutate_def)
qed

text \<open>
  Claim C5 fails on the code. A \<^verbatim>\<open>customer_id\<close> that is no number resolves to no
  customer, yet the failure is not \<^verbatim>\<open>Invalid customer ID\<close>: the lookup raises
  \<^verbatim>\<open>ValueError\<close>, and the \<^verbatim>\<open>except\<close> clause catches \<^verbatim>\<open>Customer.DoesNotExist\<close> only. In
  the example store, with the customer ID \<^verbatim>\<open>abc\<close>, for a list of products and for the
  empty list.
\<close>

theorem create_order_unreadable_customer_id:
  "CreateOrder_mutate (\<lambda>n. None) shop 0
     \<lparr>customer_id = Text ''abc'', product_ids = [Number 1, Number 2], input_order_date = None\<rparr>
   = (shop, Inl (ValueError ''Field 'id' expected a number but got 'abc'.''))
   \<and> CreateOrder_mutate (\<lambda>n. None) shop 0
     \<lparr>customer_id = Text ''abc'', product_ids = [], input_order_date = None\<rparr>
   = (shop, Inl (ValueError ''Field 'id' expected a number but got 'abc'.''))"
  by (simp add: CreateOrder_mutate_def Customer_objects_get_def to_python_def)

text \<open>
  Claim C6, as amended. For an existing customer, \<^verbatim>\<open>create_order\<close> with an empty
  \<^verbatim>\<open>product_ids\<close> fails with \<^verbatim>\<open>At least one product is required\<close>.
\<close>

theorem create_order_empty_list:
  assumes "customer_id input = Number cid"
    and "Some cid \<in> set (map customer_pk (customers s))"
    and "product_ids input = []"
  shows "CreateOrder_mutate db_fault s now input
      = (s, Inl (Exception ''At least one product is required''))"
proof -
  obtain c where "Customer_objects_get s (customer_id input) = Inr c"
    using Customer_objects_get_Some[OF assms(2)] assms(1) by auto
  then show ?thesis using assms(3) by (simp add: CreateOrder_mutate_def)
qed

theorem create_order_empty_list_witness:
  "Some 1 \<in> set (map customer_pk (customers shop))
   \<and> CreateOrder_mutate (\<lambda>n. None) shop 0
        \<lparr>customer_id = Number 1, product_ids = [], input_order_date = None\<rparr>
      = (shop, Inl (Exception ''At least one product is required''))"
proof -
  let ?input = "\<lparr>customer_id = Number 1, product_ids = [], input_order_date = None\<rparr>"
  have c: "Some 1 \<in> set (map customer_pk (customers shop))"
    by (simp add: shop_def ann_def)
  from create_order_empty_list[where input = ?input and cid = 1 and s = shop
      and db_fault = "\<lambda>n. None" and now = 0, OF _ c] c
  show ?thesis by simp
qed

text \<open>
  Claim C6 as stated fails when the customer does not exist: the customer is looked up
  first, so an empty \<^verbatim>\<open>product_ids\<close> is answered with \<^verbatim>\<open>Invalid customer ID\<close>.
\<close>

theorem create_order_empty_list_unknown_customer_counterexample:
  "product_ids \<lparr>customer_id = Number 1, product_ids = [], input_order_date = None\<rparr> = []
   \<and> snd (CreateOrder_mutate (\<lambda>n. None) empty_store 0
        \<lparr>customer_id = Number 1, product_ids = [], input_order_date = None\<rparr>)
      = Inl (Exception ''Invalid customer ID'')
   \<and> snd (CreateOrder_mutate (\<lambda>n. None) empty_store 0
        \<lparr>customer_id = Number 1, product_ids = [], input_order_date = None\<rparr>)
      \<noteq> Inl (Exception ''At least one product is required'')"
  by (simp add: CreateOrder_mutate_def Customer_objects_get_def to_python_def empty_store_def)

text \<open>
  Claim C9. Whenever \<^verbatim>\<open>create_order\<close> fails, whatever the input, the store and the
  database's faults, the store is the one the call started from: no order row and no
  product attachment remains. The checks fail before any write, and a failure inside
  the block is undone by the block.
\<close>

theorem create_order_failure_leaves_store:
  assumes "CreateOrder_mutate db_fault s now input = (s', Inl e)"
  shows "s' = s \<and> orders s' = orders s \<and> order_products s' = order_products s"
proof -
  have "s' = s"
    using assms
    by (auto simp: CreateOrder_mutate_def atomic_def
        split: if_splits sum.splits prod.splits)
  then show ?thesis by simp
qed

text \<open>
  In the example store the first save does insert a row; when the database then refuses
  the second save, the call fails and the store is the example store again.
\<close>

theorem create_order_failure_leaves_store_witness:
  "(\<exists>s1 order1. Order_save None shop 0
        \<lparr>order_pk = None, order_customer = Some 1, total_amount = 0, order_date = None\<rparr>
        = Inr (s1, order1) \<and> orders s1 = [order1])
   \<and> CreateOrder_mutate (\<lambda>n. if n = 2 then Some ''connection lost'' else None) shop 0
        \<lparr>customer_id = Number 1, product_ids = [Number 1, Number 2], input_order_date = None\<rparr>
      = (shop, Inl (Exception ''Error creating order: connection lost''))"
proof -
  let ?f = "\<lambda>n::nat. if n = 2 then Some ''connection lost'' else None"
  let ?input = "\<lparr>customer_id = Number 1, product_ids = [Number 1, Number 2], input_order_date = None\<rparr>"
  have first: "\<exists>s1 order1. Order_save None shop 0
        \<lparr>order_pk = None, order_customer = Some 1, total_amount = 0, order_date = None\<rparr>
        = Inr (s1, order1) \<and> orders s1 = [order1]"
    by (simp add: Order_save_def Let_def shop_def)
  have e: "snd (CreateOrder_mutate ?f shop 0 ?input)
      = Inl (Exception ''Error creating order: connection lost'')"
    by (simp add: CreateOrder_mutate_def Customer_objects_get_def Product_objects_filter_id_in_def
        to_python_def sqlite_integer_def id_in_rows_def
        atomic_def CreateOrder_block_def Order_save_def Order_products_set_def Let_def
        shop_def ann_def pen_def ink_def pad_def)
  obtain s' where r: "CreateOrder_mutate ?f shop 0 ?input
      = (s', Inl (Exception ''Error creating order: connection lost''))"
    using e by (cases "CreateOrder_mutate ?f shop 0 ?input") simp
  from create_order_failure_leaves_store[OF r] have "s' = shop" by simp
  with r first show ?thesis by simp
qed

section \<open>Creating customers\<close>




lemma bulk_loop_outcomes:
  "bulk_loop fe s nr now items cs es = (s', nr', cs', es') \<Longrightarrow>
   length cs' + length es' = length cs + length es + length items"
proof (induction items arbitrary: s nr cs es)
  case Nil
  then show ?case by simp
next
  case (Cons item rest)
  show ?case
  proof (cases "Customer_clean fe (new_Customer item)")
    case (Inl e)
    with Cons.prems Cons.IH[of s nr cs "es @ [BulkCreateCustomers_except item e]"]
    show ?thesis by simp
  next
    case (Inr u)
    obtain nr1 r where sv: "save_in_atomic nr s now (new_Customer item) = (nr1, r)"
      by (cases "save_in_atomic nr s now (new_Customer item)")
    show ?thesis
    proof (cases r)
      case (Inl e)
      with Inr sv Cons.prems Cons.IH[of s nr1 cs "es @ [BulkCreateCustomers_except item e]"]
      show ?thesis by simp
    next
      case r: (Inr p)
      obtain s1 c where "p = (s1, c)" by (cases p)
      with r Inr sv Cons.prems Cons.IH[of s1 nr1 "cs @ [c]" es]
      show ?thesis by simp
    qed
  qed
qed

text \<open>
  Claim C3 fails on the code. Every item does get one outcome, a customer or an error
  string (\<open>bulk_loop_outcomes\<close>). But in the example store, which holds Ann's email, the
  input "Ann again, then Bob" gives no customer and two error strings: the refused
  insert of Ann marks the transaction, Bob's insert is then refused, and the claim's one
  customer and one error string are not what is returned. With Bob first, the result
  lists Bob and one error string, and the block rolls Bob's row back when it ends. This
  holds for every check of the fields that passes both items.
\<close>

theorem bulk_create_customers_duplicate_first:
  assumes "field_errors (new_Customer
              \<lparr>input_name = ''Ann'', input_email = ''ann@example.com'', input_phone = None\<rparr>) = None"
    and "field_errors (new_Customer
              \<lparr>input_name = ''Bob'', input_email = ''bob@example.com'', input_phone = None\<rparr>) = None"
  shows "BulkCreateCustomers_mutate field_errors shop 0
     [\<lparr>input_name = ''Ann'', input_email = ''ann@example.com'', input_phone = None\<rparr>,
      \<lparr>input_name = ''Bob'', input_email = ''bob@example.com'', input_phone = None\<rparr>]
   = (shop, [],
      [''Failed to create customer Ann: UNIQUE constraint failed: crm_customer.email'',
       ''Unexpected error for Bob: An error occurred in the current transaction. You can't execute queries until the end of the 'atomic' block.''])
   \<and> BulkCreateCustomers_mutate field_errors shop 0
     [\<lparr>input_name = ''Bob'', input_email = ''bob@example.com'', input_phone = None\<rparr>,
      \<lparr>input_name = ''Ann'', input_email = ''ann@example.com'', input_phone = None\<rparr>]
   = (shop,
      [\<lparr>customer_pk = Some 2, customer_name = ''Bob'', email = ''bob@example.com'',
        phone = None, created_at = Some 0\<rparr>],
      [''Failed to create customer Ann: UNIQUE constraint failed: crm_customer.email''])"
  using assms
  by (simp add: BulkCreateCustomers_mutate_def save_in_atomic_def Customer_clean_def
      Customer_save_def new_Customer_def next_id_def shop_def ann_def Let_def)

text \<open>
  With a check that accepts every customer, as \<^verbatim>\<open>clean()\<close> does when a model does not
  override it.
\<close>

theorem bulk_create_customers_duplicate_first_witness:
  "BulkCreateCustomers_mutate (\<lambda>c. None) shop 0
     [\<lparr>input_name = ''Ann'', input_email = ''ann@example.com'', input_phone = None\<rparr>,
      \<lparr>input_name = ''Bob'', input_email = ''bob@example.com'', input_phone = None\<rparr>]
   = (shop, [],
      [''Failed to create customer Ann: UNIQUE constraint failed: crm_customer.email'',
       ''Unexpected error for Bob: An error occurred in the current transaction. You can't execute queries until the end of the 'atomic' block.''])
   \<and> BulkCreateCustomers_mutate (\<lambda>c. None) shop 0
     [\<lparr>input_name = ''Bob'', input_email = ''bob@example.com'', input_phone = None\<rparr>,
      \<lparr>input_name = ''Ann'', input_email = ''ann@example.com'', input_phone = None\<rparr>]
   = (shop,
      [\<lparr>customer_pk = Some 2, customer_name = ''Bob'', email = ''bob@example.com'',
        phone = None, created_at = Some 0\<rparr>],
      [''Failed to create customer Ann: UNIQUE constraint failed: crm_customer.email''])"
  using bulk_create_customers_duplicate_first[where field_errors = "\<lambda>c. None"]
  by simp



section \<open>The report\<close>

text \<open>
  Claim C7. \<^verbatim>\<open>crm_report()\<close> returns the number of customers, the number of orders and
  the sum of the orders' \<open>total_amount\<close>; without orders the revenue is 0, not null;
  on the empty store the report is 0, 0, 0.
\<close>

theorem crm_report_totals:
  "resolve_crm_report s =
     \<lparr>total_customers = Some (int (length (customers s))),
      total_orders = Some (int (length (orders s))),
      total_revenue = Some (sum_list (map total_amount (orders s)))\<rparr>
   \<and> total_revenue (resolve_crm_report (s\<lparr>orders := []\<rparr>)) = Some 0
   \<and> resolve_crm_report empty_store =
       \<lparr>total_customers = Some 0, total_orders = Some 0, total_revenue = Some 0\<rparr>"
  by (simp add: resolve_crm_report_def Order_aggregate_Sum_total_amount_def or_0_def empty_store_def)

end
